theory Spec2Isabelle
  imports Main "HOL-Library.Word" "HOL-Library.AList"
begin

section \<open>JavaScript strings and values\<close>

text \<open>
  A JavaScript string is a sequence of UTF-16 code units and \<open>length\<close> counts code
  units, so a string is a list of 16-bit words. ASCII literals of the source are
  written through \<open>js\<close>; the accented letters of the messages are given by their
  code unit.
\<close>

type_synonym jschar = "16 word"
type_synonym jsstring = "jschar list"

definition js :: "string \<Rightarrow> jsstring" where
  "js s = map of_char s"

text \<open>
  The values a form field or a payload property can hold. A Number is represented
  by the integer it denotes (the house number of the payload is the only Number
  the component reads).
\<close>

datatype jsvalue =
  JUndefined
| JNull
| JBool bool
| JNumber int
| JString jsstring

subsection \<open>\<open>String.prototype.trim\<close>\<close>

text \<open>
  \<open>trim\<close> removes white space and line terminators from both ends: TAB, LF, VT,
  FF, CR, SP, NBSP, the space separators U+1680, U+2000..U+200A, U+202F, U+205F,
  U+3000, the line and paragraph separators U+2028, U+2029, and U+FEFF.
\<close>

definition isWhiteSpace :: "jschar \<Rightarrow> bool" where
  "isWhiteSpace c =
     (c = 0x9 \<or> c = 0xA \<or> c = 0xB \<or> c = 0xC \<or> c = 0xD \<or> c = 0x20 \<or> c = 0xA0
      \<or> c = 0x1680 \<or> (0x2000 \<le> c \<and> c \<le> 0x200A) \<or> c = 0x2028 \<or> c = 0x2029
      \<or> c = 0x202F \<or> c = 0x205F \<or> c = 0x3000 \<or> c = 0xFEFF)"

definition trim :: "jsstring \<Rightarrow> jsstring" where
  "trim s = rev (dropWhile isWhiteSpace (rev (dropWhile isWhiteSpace s)))"

subsection \<open>\<open>replace(/_/gi, '')\<close>\<close>

text \<open>
  The global flag replaces every match; the pattern matches the single code unit
  \<open>_\<close> (U+005F), which has no other case, so the \<open>i\<close> flag adds nothing. Each
  match is replaced by the empty string.
\<close>

definition replace_underscores :: "jsstring \<Rightarrow> jsstring" where
  "replace_underscores s = filter (\<lambda>c. c \<noteq> 0x5F) s"

subsection \<open>\<open>String.prototype.substr\<close>\<close>

text \<open>
  \<open>substr(start, length)\<close>: a negative start counts from the end, the start is
  clamped to the string, and the length is clamped to what is left; nothing is
  raised on a short string.
\<close>

definition substr :: "jsstring \<Rightarrow> int \<Rightarrow> int \<Rightarrow> jsstring" where
  "substr s start len =
     (let size = int (length s);
          st = (if start < 0 then max (size + start) 0 else min start size);
          l = min (max len 0) (size - st)
      in take (nat l) (drop (nat st) s))"

subsection \<open>\<open>String(value)\<close>\<close>

fun digits :: "nat \<Rightarrow> jsstring" where
  "digits n = (if n < 10 then [of_nat (48 + n)] else digits (n div 10) @ [of_nat (48 + n mod 10)])"

text \<open>
  \<open>String\<close> leaves a string as it is and prints the other primitives. An
  integer-valued Number below \<open>10^21\<close> in magnitude prints as its decimal digits.
\<close>

definition String :: "jsvalue \<Rightarrow> jsstring" where
  "String v =
     (case v of
        JUndefined \<Rightarrow> js ''undefined''
      | JNull \<Rightarrow> js ''null''
      | JBool b \<Rightarrow> (if b then js ''true'' else js ''false'')
      | JNumber n \<Rightarrow> (if n < 0 then js ''-'' @ digits (nat (- n)) else digits (nat n))
      | JString s \<Rightarrow> s)"

section \<open>The card display\<close>

text \<open>
  \<open>CreditCard\<close> renders three texts: the grouped card number, the expiry window
  and the CVV as given.
\<close>

record card_view =
  cardNumber :: jsstring
  expirationDate :: jsstring
  cvv :: jsstring

definition CreditCard :: "jsstring \<Rightarrow> jsstring \<Rightarrow> jsstring \<Rightarrow> card_view" where
  "CreditCard numeroCartao validadeCartao cvcCartao =
     \<lparr> cardNumber =
         substr numeroCartao 0 4 @ js '' '' @
         substr numeroCartao 4 4 @ js '' '' @
         substr numeroCartao 8 4 @ js '' '' @
         substr numeroCartao 12 4,
       expirationDate = substr validadeCartao 5 5,
       cvv = cvcCartao \<rparr>"

section \<open>The validation schema\<close>

text \<open>
  A zod schema maps an input value to the list of issues it raises; the empty
  list is success. \<open>z.string()\<close> raises \<open>invalid_type\<close> on anything but a string, a
  refinement runs only when the inner schema raised nothing and raises a
  \<open>custom\<close> issue with its message, \<open>min\<close> raises \<open>too_small\<close> with its message, and
  \<open>optional\<close> accepts \<open>undefined\<close> without running the inner schema.
\<close>

datatype issue =
  invalid_type
| custom jsstring
| too_small jsstring

type_synonym zschema = "jsvalue \<Rightarrow> issue list"

definition z_string :: zschema where
  "z_string v = (case v of JString s \<Rightarrow> [] | _ \<Rightarrow> [invalid_type])"

definition refine :: "zschema \<Rightarrow> (jsstring \<Rightarrow> bool) \<Rightarrow> jsstring \<Rightarrow> zschema" where
  "refine inner check msg v =
     (case inner v of
        [] \<Rightarrow> (case v of JString s \<Rightarrow> (if check s then [] else [custom msg]) | _ \<Rightarrow> [])
      | i # is \<Rightarrow> i # is)"

definition z_min :: "zschema \<Rightarrow> nat \<Rightarrow> jsstring \<Rightarrow> zschema" where
  "z_min inner n msg v =
     (case inner v of
        [] \<Rightarrow> (case v of JString s \<Rightarrow> (if length s < n then [too_small msg] else []) | _ \<Rightarrow> [])
      | i # is \<Rightarrow> i # is)"

definition optional :: "zschema \<Rightarrow> zschema" where
  "optional inner v = (if v = JUndefined then [] else inner v)"

definition msg_nome :: jsstring where
  "msg_nome = js ''Digite um nome v'' @ [0xE1] @ js ''lido.''"

definition msg_cep :: jsstring where
  "msg_cep = js ''Digite um CEP v'' @ [0xE1] @ js ''lido''"

definition msg_telefone :: jsstring where
  "msg_telefone = js ''Digite um telefone v'' @ [0xE1] @ js ''lido''"

definition msg_senha :: jsstring where
  "msg_senha = js ''A senha deve conter no m'' @ [0xED] @ js ''nimo 8 caracteres''"

definition schema_nome :: zschema where
  "schema_nome = optional (refine z_string (\<lambda>name. length (trim name) \<noteq> 0) msg_nome)"

definition schema_endereco :: zschema where
  "schema_endereco = z_string"

definition schema_cep :: zschema where
  "schema_cep =
     optional (refine z_string (\<lambda>cep. length (replace_underscores (trim cep)) = 9) msg_cep)"

definition schema_numero :: zschema where
  "schema_numero = z_string"

definition schema_telefone :: zschema where
  "schema_telefone =
     optional (refine z_string
       (\<lambda>telefone. length (replace_underscores (trim telefone)) = 17) msg_telefone)"

definition schema_senha :: zschema where
  "schema_senha = optional (z_min z_string 8 msg_senha)"

text \<open>
  The form values are an object, kept as an association list from field names to
  values; a field that is absent reads as \<open>undefined\<close>. \<open>z.object\<close> checks the keys
  of its shape in order and reports each issue under its key.
\<close>

type_synonym formdata = "(string \<times> jsvalue) list"

definition getField :: "formdata \<Rightarrow> string \<Rightarrow> jsvalue" where
  "getField obj k = (case map_of obj k of None \<Rightarrow> JUndefined | Some v \<Rightarrow> v)"

definition shape :: "(string \<times> zschema) list" where
  "shape =
     [(''nome'', schema_nome), (''endereco'', schema_endereco), (''cep'', schema_cep),
      (''numero'', schema_numero), (''telefone'', schema_telefone), (''senha'', schema_senha)]"

definition schema :: "formdata \<Rightarrow> (string \<times> issue) list" where
  "schema obj = concat (map (\<lambda>(k, sch). map (Pair k) (sch (getField obj k))) shape)"

section \<open>The account form\<close>

subsection \<open>What the handlers observe and do\<close>

text \<open>
  A thrown value is inspected only through \<open>instanceof AppError\<close> and its
  \<open>message\<close> property, so it is either an \<open>AppError\<close> or something else, each with
  the value of that property. The class itself (utils/AppError) is defined
  elsewhere; nothing more of it is used.
\<close>

datatype thrown =
  AppError jsvalue
| NotAppError jsvalue

primrec instanceof_AppError :: "thrown \<Rightarrow> bool" where
  "instanceof_AppError (AppError m) = True"
| "instanceof_AppError (NotAppError m) = False"

primrec message :: "thrown \<Rightarrow> jsvalue" where
  "message (AppError m) = m"
| "message (NotAppError m) = m"

text \<open>Reading a property of a missing \<open>cliente\<close> raises a TypeError.\<close>

definition TypeError :: thrown where
  "TypeError = NotAppError (JString (js ''Cannot read properties of undefined''))"

text \<open>The body of a successful \<open>GET /conta\<close>: \<open>data.cliente\<close> and the properties read.\<close>

record cliente_obj =
  nome :: jsvalue
  endereco :: jsvalue
  cep :: jsvalue
  numero :: jsvalue
  telefone :: jsvalue

record data =
  cliente :: "cliente_obj option"

text \<open>
  Everything the component does to the outside is kept in a trace, in order:
  requests to the API, the confirm dialog, alerts, console output, toasts and the
  call of \<open>logout\<close>.
\<close>

datatype http_method = GET | PUT | DELETE

datatype effect =
  Request http_method string "formdata option"
| Confirm jsstring
| Alert jsstring
| ConsoleLog thrown
| ShowToast jsvalue jsstring bool
| Logout

text \<open>
  The state of one form instance: the two flags, the values and the errors held
  by the form library, the trace, and the number of awaits of each kind that are
  suspended on a response. \<open>session\<close> is the authentication context.
\<close>

record state =
  isLoading :: bool
  isSubmitting :: bool
  formValues :: formdata
  errors :: "(string \<times> issue) list"
  trace :: "effect list"
  pendingGet :: nat
  pendingPut :: nat
  pendingDelete :: nat
  session :: bool

definition initial :: state where
  "initial =
     \<lparr> isLoading = True, isSubmitting = False, formValues = [], errors = [], trace = [],
       pendingGet = 0, pendingPut = 0, pendingDelete = 0, session = True \<rparr>"

definition emit :: "effect \<Rightarrow> state \<Rightarrow> state" where
  "emit e s = s\<lparr>trace := trace s @ [e]\<rparr>"

definition setIsLoading :: "bool \<Rightarrow> state \<Rightarrow> state" where
  "setIsLoading b s = s\<lparr>isLoading := b\<rparr>"

definition setValue :: "string \<Rightarrow> jsvalue \<Rightarrow> state \<Rightarrow> state" where
  "setValue name v s = s\<lparr>formValues := AList.update name v (formValues s)\<rparr>"

definition showToast :: "jsvalue \<Rightarrow> jsstring \<Rightarrow> bool \<Rightarrow> state \<Rightarrow> state" where
  "showToast title description isError s = emit (ShowToast title description isError) s"

text \<open>Issuing a request leaves one more await suspended; its response resumes it.\<close>

definition api_get :: "string \<Rightarrow> state \<Rightarrow> state" where
  "api_get url s = (emit (Request GET url None) s)\<lparr>pendingGet := Suc (pendingGet s)\<rparr>"

definition api_put :: "string \<Rightarrow> formdata \<Rightarrow> state \<Rightarrow> state" where
  "api_put url body s = (emit (Request PUT url (Some body)) s)\<lparr>pendingPut := Suc (pendingPut s)\<rparr>"

definition api_delete :: "string \<Rightarrow> state \<Rightarrow> state" where
  "api_delete url s = (emit (Request DELETE url None) s)\<lparr>pendingDelete := Suc (pendingDelete s)\<rparr>"

text \<open>
  Modelled from the spec: \<open>logout\<close> of the authentication context
  (contexts/AuthContext.jsx), which is not part of the sources at hand. It clears
  the session and redirects to a logged-out state.
\<close>

definition logout :: "state \<Rightarrow> state" where
  "logout s = (emit Logout s)\<lparr>session := False\<rparr>"

subsection \<open>\<open>loadAccountData\<close>\<close>

text \<open>
  Each async function is cut at its \<open>await\<close>: the part that runs when it is called,
  up to the request, and the part that runs when the response arrives. The
  function without suffix is the two in sequence, for a given response.
\<close>

definition loadAccountData_call :: "state \<Rightarrow> state" where
  "loadAccountData_call s = api_get ''/conta'' (setIsLoading True s)"

definition loadAccountData_catch :: "thrown \<Rightarrow> state \<Rightarrow> state" where
  "loadAccountData_catch error s = emit (ConsoleLog error) (emit (Alert (js ''Um erro ocorreu'')) s)"

definition loadAccountData_resume :: "thrown + data \<Rightarrow> state \<Rightarrow> state" where
  "loadAccountData_resume res s0 =
     (let s = s0\<lparr>pendingGet := pendingGet s0 - 1\<rparr> in
      case res of
        Inl error \<Rightarrow> loadAccountData_catch error s
      | Inr d \<Rightarrow>
          (case cliente d of
             None \<Rightarrow> loadAccountData_catch TypeError s
           | Some c \<Rightarrow>
               (let s1 = setValue ''nome'' (nome c) s;
                    s2 = setValue ''endereco'' (endereco c) s1;
                    s3 = setValue ''cep'' (cep c) s2;
                    s4 = setValue ''numero'' (JString (String (numero c))) s3;
                    s5 = setValue ''telefone'' (telefone c) s4
                in setIsLoading False s5)))"

definition loadAccountData :: "thrown + data \<Rightarrow> state \<Rightarrow> state" where
  "loadAccountData res s = loadAccountData_resume res (loadAccountData_call s)"

subsection \<open>\<open>handleAtualizarUsuario\<close>\<close>

definition handleAtualizarUsuario_call :: "formdata \<Rightarrow> state \<Rightarrow> state" where
  "handleAtualizarUsuario_call formData s = api_put ''/clientes'' formData s"

definition handleAtualizarUsuario_resume :: "thrown + unit \<Rightarrow> state \<Rightarrow> state" where
  "handleAtualizarUsuario_resume res s0 =
     (let s = s0\<lparr>pendingPut := pendingPut s0 - 1\<rparr> in
      case res of
        Inr u \<Rightarrow> loadAccountData_call s
      | Inl error \<Rightarrow>
          (let isAppError = instanceof_AppError error;
               title = (if isAppError then message error else JString (js ''Erro no servidor.''));
               description = (if isAppError then js ''Verifique os dados e tente novamente.''
                              else js ''Tente novamente mais tarde.'')
           in showToast title description True s))"

definition handleAtualizarUsuario :: "formdata \<Rightarrow> thrown + unit \<Rightarrow> state \<Rightarrow> state" where
  "handleAtualizarUsuario formData res s =
     handleAtualizarUsuario_resume res (handleAtualizarUsuario_call formData s)"

subsection \<open>\<open>handleDeletarConta\<close>\<close>

definition msg_confirm :: jsstring where
  "msg_confirm = js ''Voc'' @ [0xEA] @ js '' deseja realmente apagar a conta?''"

definition handleDeletarConta_call :: "bool \<Rightarrow> state \<Rightarrow> state" where
  "handleDeletarConta_call proceedWithDeleting s =
     (let s1 = emit (Confirm msg_confirm) s in
      if proceedWithDeleting then api_delete ''/clientes'' s1 else s1)"

definition handleDeletarConta_resume :: "thrown + unit \<Rightarrow> state \<Rightarrow> state" where
  "handleDeletarConta_resume res s0 =
     (let s = s0\<lparr>pendingDelete := pendingDelete s0 - 1\<rparr> in
      case res of
        Inr u \<Rightarrow> logout s
      | Inl error \<Rightarrow>
          (let isAppError = instanceof_AppError error;
               title = (if isAppError then message error else JString (js ''Erro no servidor.''));
               description = (if isAppError then js ''Verifique os dados e tente novamente.''
                              else js ''Tente novamente mais tarde.'')
           in showToast title description True s))"

definition handleDeletarConta :: "bool \<Rightarrow> thrown + unit \<Rightarrow> state \<Rightarrow> state" where
  "handleDeletarConta proceedWithDeleting res s =
     (if proceedWithDeleting
      then handleDeletarConta_resume res (handleDeletarConta_call True s)
      else handleDeletarConta_call False s)"

subsection \<open>Submitting through the form library\<close>

text \<open>
  With the default settings \<open>z.object\<close> returns the keys of its shape that the
  input has, in the order of the shape; this is what the resolver passes on as
  \<open>formData\<close>.
\<close>

definition parsed :: "formdata \<Rightarrow> formdata" where
  "parsed obj =
     concat (map (\<lambda>(k, sch). case map_of obj k of None \<Rightarrow> [] | Some v \<Rightarrow> [(k, v)]) shape)"

text \<open>
  \<open>handleSubmit(handleAtualizarUsuario)\<close> of react-hook-form: it raises
  \<open>isSubmitting\<close>, runs the resolver, and either records the errors without calling
  the handler or clears them and awaits the handler; when that is over it lowers
  \<open>isSubmitting\<close>. The resolver finishes within the same turn of the event loop,
  so nothing else runs between the click and the request.
\<close>

definition handleSubmit_call :: "state \<Rightarrow> state" where
  "handleSubmit_call s =
     (let s1 = s\<lparr>isSubmitting := True\<rparr>;
          errs = schema (formValues s1)
      in if errs = []
         then handleAtualizarUsuario_call (parsed (formValues s1)) (s1\<lparr>errors := []\<rparr>)
         else s1\<lparr>errors := errs, isSubmitting := False\<rparr>)"

definition handleSubmit_resume :: "thrown + unit \<Rightarrow> state \<Rightarrow> state" where
  "handleSubmit_resume res s = (handleAtualizarUsuario_resume res s)\<lparr>isSubmitting := False\<rparr>"

subsection \<open>What is rendered\<close>

text \<open>
  \<open>UpdateForm\<close> returns the loading indicator while \<open>isLoading\<close> holds and the
  section otherwise. Of the section the model keeps the \<open>disabled\<close> property of
  the button \<open>Alterar Dados\<close>; the button \<open>Deletar Conta\<close> has none.
\<close>

datatype view = Loading | Section bool

definition UpdateForm :: "state \<Rightarrow> view" where
  "UpdateForm s = (if isLoading s then Loading else Section (isSubmitting s))"

text \<open>
  Modelled from the spec: the form is on screen only while the session lasts
  (after \<open>logout\<close> the user is in a logged-out state), its fields and buttons
  exist only in the section, and a disabled button does not submit.
\<close>

definition on_screen :: "state \<Rightarrow> bool" where
  "on_screen s = (session s \<and> (case UpdateForm s of Loading \<Rightarrow> False | Section d \<Rightarrow> True))"

definition can_submit :: "state \<Rightarrow> bool" where
  "can_submit s = (session s \<and> (case UpdateForm s of Loading \<Rightarrow> False | Section d \<Rightarrow> \<not> d))"

subsection \<open>The event loop\<close>

text \<open>
  What can happen to a mounted form: the user edits a field, submits, or clicks
  the delete button and answers the dialog; a response to a pending request
  arrives. An event that cannot happen in a state yields \<open>None\<close>.
\<close>

datatype event =
  Edit string jsstring
| Submit
| DeleteClick bool
| GetResponse "thrown + data"
| PutResponse "thrown + unit"
| DeleteResponse "thrown + unit"

fun step :: "event \<Rightarrow> state \<Rightarrow> state option" where
  "step (Edit name v) s = (if on_screen s then Some (setValue name (JString v) s) else None)"
| "step Submit s = (if can_submit s then Some (handleSubmit_call s) else None)"
| "step (DeleteClick p) s = (if on_screen s then Some (handleDeletarConta_call p s) else None)"
| "step (GetResponse r) s = (if 0 < pendingGet s then Some (loadAccountData_resume r s) else None)"
| "step (PutResponse r) s = (if 0 < pendingPut s then Some (handleSubmit_resume r s) else None)"
| "step (DeleteResponse r) s =
     (if 0 < pendingDelete s then Some (handleDeletarConta_resume r s) else None)"

fun run :: "event list \<Rightarrow> state \<Rightarrow> state option" where
  "run [] s = Some s"
| "run (e # es) s = (case step e s of None \<Rightarrow> None | Some s' \<Rightarrow> run es s')"

text \<open>The effect after mounting calls \<open>loadAccountData\<close>; from there events follow.\<close>

inductive reachable :: "state \<Rightarrow> bool" where
  mounted: "reachable (loadAccountData_call initial)"
| after: "reachable s \<Longrightarrow> step e s = Some s' \<Longrightarrow> reachable s'"

section \<open>The statements of the specification, in its words\<close>

definition isDigit :: "jschar \<Rightarrow> bool" where
  "isDigit c = (0x30 \<le> c \<and> c \<le> 0x39)"

text \<open>
  Postal code: the input without placeholders and without the literal \<open>-\<close> of the
  mask is 8 digits. Phone: the input without placeholders and without the
  literals \<open>+\<close>, space and \<open>-\<close> of the mask is 13 digits.
\<close>

definition spec_postalCode_ok :: "jsstring \<Rightarrow> bool" where
  "spec_postalCode_ok s =
     (let r = filter (\<lambda>c. c \<noteq> 0x2D) (replace_underscores s)
      in length r = 8 \<and> list_all isDigit r)"

definition spec_phone_ok :: "jsstring \<Rightarrow> bool" where
  "spec_phone_ok s =
     (let r = filter (\<lambda>c. c \<noteq> 0x2B \<and> c \<noteq> 0x20 \<and> c \<noteq> 0x2D) (replace_underscores s)
      in length r = 13 \<and> list_all isDigit r)"

text \<open>
  The toast of a failed update or delete: an application-level error gives its
  own message and the remediation hint, anything else the fallback title and the
  try-again-later text.
\<close>

definition spec_toast :: "thrown \<Rightarrow> effect" where
  "spec_toast e =
     (case e of
        AppError m \<Rightarrow> ShowToast m (js ''Verifique os dados e tente novamente.'') True
      | NotAppError m \<Rightarrow>
          ShowToast (JString (js ''Erro no servidor.'')) (js ''Tente novamente mais tarde.'') True)"

definition count_effect :: "effect \<Rightarrow> effect list \<Rightarrow> nat" where
  "count_effect e t = length (filter (\<lambda>x. x = e) t)"

definition example_cliente :: cliente_obj where
  "example_cliente =
     \<lparr> nome = JString (js ''Ana''), endereco = JString (js ''Rua A''),
       cep = JString (js ''01234-567''), numero = JNumber 42,
       telefone = JString (js ''+55 11 99999-9999'') \<rparr>"

definition example_data :: data where
  "example_data = \<lparr> cliente = Some example_cliente \<rparr>"

text \<open>
  Modelled from the spec: the Input component (components/Input), which is not
  part of the sources at hand, applies the mask it is given, a fixed-length
  template of literal characters and fillable positions. In the masks of the
  source, \<open>99999-999\<close> and \<open>+5\5 99 99999-9999\<close>, a \<open>9\<close> is a position for a
  digit, shown as the placeholder \<open>_\<close> while empty, and every other character is
  a literal (the backslash escapes the \<open>5\<close> after it).
\<close>

datatype mask_item = Slot | Lit jschar

primrec fits :: "mask_item \<Rightarrow> jschar \<Rightarrow> bool" where
  "fits Slot c = (isDigit c \<or> c = 0x5F)"
| "fits (Lit l) c = (c = l)"

definition masked :: "mask_item list \<Rightarrow> jsstring \<Rightarrow> bool" where
  "masked m s = list_all2 fits m s"

definition mask_cep :: "mask_item list" where
  "mask_cep = [Slot, Slot, Slot, Slot, Slot, Lit 0x2D, Slot, Slot, Slot]"

definition mask_telefone :: "mask_item list" where
  "mask_telefone =
     [Lit 0x2B, Lit 0x35, Lit 0x35, Lit 0x20, Slot, Slot, Lit 0x20, Slot, Slot, Slot, Slot, Slot,
      Lit 0x2D, Slot, Slot, Slot, Slot]"

text \<open>
  For a set of characters to keep: the literals of a mask that are dropped, and
  the condition that no literal is the placeholder and every kept literal is a
  digit.
\<close>

primrec dropped_literal :: "(jschar \<Rightarrow> bool) \<Rightarrow> mask_item \<Rightarrow> bool" where
  "dropped_literal keep Slot = False"
| "dropped_literal keep (Lit l) = (\<not> keep l)"

primrec literal_ok :: "(jschar \<Rightarrow> bool) \<Rightarrow> mask_item \<Rightarrow> bool" where
  "literal_ok keep Slot = True"
| "literal_ok keep (Lit l) = (l \<noteq> 0x5F \<and> (keep l \<longrightarrow> isDigit l))"

text \<open>The fields of the schema that hold a value in the form.\<close>

definition populated_fields :: "state \<Rightarrow> string list" where
  "populated_fields s = filter (\<lambda>k. map_of (formValues s) k \<noteq> None) (map fst shape)"

text \<open>
  While a submit is in flight exactly one update request is pending, the flag is
  up and the form is not loading; otherwise no update request is pending.
\<close>

definition submit_inv :: "state \<Rightarrow> bool" where
  "submit_inv s =
     ((isSubmitting s \<longleftrightarrow> pendingPut s = 1) \<and> pendingPut s \<le> 1
      \<and> (0 < pendingPut s \<longrightarrow> \<not> isLoading s))"

text \<open>A form that has loaded the example account, and the same form after a submit.\<close>

definition example_ready :: state where
  "example_ready = loadAccountData (Inr example_data) initial"

definition example_submitting :: state where
  "example_submitting = handleSubmit_call example_ready"

text \<open>
  The submitting form after the account was deleted in the meantime and the two
  responses of the submit have arrived.
\<close>

definition example_logged_out :: state where
  "example_logged_out =
     loadAccountData_resume (Inr example_data)
       (handleSubmit_resume (Inr ())
         (handleDeletarConta True (Inr ()) example_submitting))"

section \<open>Properties\<close>

lemmas effect_defs = emit_def setIsLoading_def setValue_def showToast_def api_get_def
  api_put_def api_delete_def logout_def

lemmas handler_defs = loadAccountData_call_def loadAccountData_catch_def
  loadAccountData_resume_def loadAccountData_def handleAtualizarUsuario_call_def
  handleAtualizarUsuario_resume_def handleAtualizarUsuario_def handleDeletarConta_call_def
  handleDeletarConta_resume_def handleDeletarConta_def handleSubmit_call_def
  handleSubmit_resume_def

lemmas field_defs = schema_cep_def schema_telefone_def optional_def refine_def z_string_def

lemmas string_defs = js_def trim_def isWhiteSpace_def replace_underscores_def isDigit_def

subsection \<open>The card number\<close>

lemma take4_drop:
  assumes "i + 4 \<le> length n"
  shows "take 4 (drop i n) = [n ! i, n ! (i + 1), n ! (i + 2), n ! (i + 3)]"
proof (rule nth_equalityI)
  show "length (take 4 (drop i n)) = length [n ! i, n ! (i + 1), n ! (i + 2), n ! (i + 3)]"
    using assms by simp
next
  fix j assume "j < length (take 4 (drop i n))"
  then have "j < 4" by simp
  then have "j = 0 \<or> j = 1 \<or> j = 2 \<or> j = 3" by arith
  then show "take 4 (drop i n) ! j = [n ! i, n ! (i + 1), n ! (i + 2), n ! (i + 3)] ! j"
    using assms by (auto simp: numeral_eq_Suc)
qed

lemma substr_window:
  "i + 4 \<le> length n \<Longrightarrow> substr n (int i) 4 = [n ! i, n ! (i + 1), n ! (i + 2), n ! (i + 3)]"
  by (simp add: substr_def Let_def take4_drop)

text \<open>
  C4: for every card number of 16 characters (numeric or not) the text shown is
  the characters 0-3, 4-7, 8-11 and 12-15, in four groups of 4 joined by single
  spaces, 19 characters in all.
\<close>

theorem card_number_groups:
  assumes "length n = 16"
  shows "cardNumber (CreditCard n v c) =
           [n ! 0, n ! 1, n ! 2, n ! 3] @ js '' '' @ [n ! 4, n ! 5, n ! 6, n ! 7] @ js '' '' @
           [n ! 8, n ! 9, n ! 10, n ! 11] @ js '' '' @ [n ! 12, n ! 13, n ! 14, n ! 15]
         \<and> length (cardNumber (CreditCard n v c)) = 19"
  using assms substr_window [of 0 n] substr_window [of 4 n] substr_window [of 8 n]
    substr_window [of 12 n]
  by (simp add: CreditCard_def js_def numeral_2_eq_2)

theorem card_number_groups_witness:
  "length (js ''1234567890123456'') = 16
   \<and> cardNumber (CreditCard (js ''1234567890123456'') (js ''2024-12/2029'') (js ''123''))
       = js ''1234 5678 9012 3456''
   \<and> length (cardNumber (CreditCard (js ''1234567890123456'') (js ''2024-12/2029'') (js ''123'')))
       = 19"
  using card_number_groups [of "js ''1234567890123456''" "js ''2024-12/2029''" "js ''123''"]
  by (simp add: js_def)

subsection \<open>The postal-code examples\<close>

text \<open>
  C7: the postal code \<open>01234-567\<close>, of 9 characters, passes the schema; \<open>1234-56\<close>,
  of 7 characters, fails with the message of the CEP field, also as the only
  issue of an otherwise valid form.
\<close>

theorem cep_examples:
  "length (js ''01234-567'') = 9 \<and> schema_cep (JString (js ''01234-567'')) = []
   \<and> length (replace_underscores (trim (js ''1234-56''))) = 7
   \<and> schema_cep (JString (js ''1234-56'')) = [custom msg_cep]
   \<and> schema [(''endereco'', JString (js ''Rua A'')), (''cep'', JString (js ''1234-56'')),
        (''numero'', JString (js ''42''))] = [(''cep'', custom msg_cep)]"
  by (simp add: field_defs string_defs schema_def shape_def getField_def schema_nome_def
      schema_endereco_def schema_numero_def schema_senha_def z_min_def)

theorem cep_examples_witness:
  "schema_cep (JString (js ''01234-567'')) = []
   \<and> schema_cep (JString (js ''1234-56'')) = [custom msg_cep]"
  using cep_examples by simp

subsection \<open>The length checks of the schema\<close>

lemma trim_id:
  assumes "s \<noteq> []" and "\<not> isWhiteSpace (hd s)" and "\<not> isWhiteSpace (last s)"
  shows "trim s = s"
proof -
  have front: "dropWhile isWhiteSpace s = s"
    using assms by (simp add: dropWhile_eq_self_iff)
  have rear: "dropWhile isWhiteSpace (rev s) = rev s"
    using assms by (simp add: dropWhile_eq_self_iff hd_rev)
  show ?thesis by (simp add: trim_def front rear)
qed

lemma replace_underscores_id: "0x5F \<notin> set s \<Longrightarrow> replace_underscores s = s"
  by (induction s) (auto simp: replace_underscores_def)

lemma digit_not_underscore: "isDigit c \<Longrightarrow> c \<noteq> 0x5F"
  by (auto simp: isDigit_def)

lemma digit_not_space: "isDigit c \<Longrightarrow> \<not> isWhiteSpace c"
  by (auto simp: isDigit_def isWhiteSpace_def word_le_nat_alt)

lemma mask_count:
  assumes "list_all2 fits m s" and "list_all (literal_ok keep) m"
    and "\<And>c. isDigit c \<Longrightarrow> keep c"
  shows "length (replace_underscores s) =
           length (filter keep (replace_underscores s)) + length (filter (dropped_literal keep) m)
         \<and> list_all isDigit (filter keep (replace_underscores s))"
  using assms(1,2)
proof (induction rule: list_all2_induct)
  case Nil
  then show ?case by (simp add: replace_underscores_def)
next
  case (Cons i m c s)
  then show ?case
    using assms(3) by (cases i) (auto simp: replace_underscores_def dest: digit_not_underscore)
qed

lemma masked_ends:
  assumes "masked m s" and "m \<noteq> []"
  shows "s \<noteq> [] \<and> fits (hd m) (hd s) \<and> fits (last m) (last s)"
proof -
  have len: "length m = length s"
    using assms(1) by (simp add: masked_def list_all2_lengthD)
  then have ne: "s \<noteq> []"
    using assms(2) by auto
  have "fits (m ! 0) (s ! 0)" and "fits (m ! (length m - 1)) (s ! (length m - 1))"
    using assms len ne by (auto simp: masked_def list_all2_conv_all_nth)
  then show ?thesis
    using ne assms(2) len by (simp add: hd_conv_nth last_conv_nth)
qed

lemma cep_masked_trim: "masked mask_cep s \<Longrightarrow> trim s = s"
  using masked_ends [of mask_cep s]
  by (auto simp: mask_cep_def isWhiteSpace_def intro!: trim_id dest: digit_not_space)

lemma telefone_masked_trim: "masked mask_telefone s \<Longrightarrow> trim s = s"
  using masked_ends [of mask_telefone s]
  by (auto simp: mask_telefone_def isWhiteSpace_def intro!: trim_id dest: digit_not_space)

lemma cep_masked:
  assumes "masked mask_cep s"
  shows "schema_cep (JString s) = [] \<longleftrightarrow> spec_postalCode_ok s"
proof -
  have keep: "\<And>c. isDigit c \<Longrightarrow> c \<noteq> 0x2D"
    by (auto simp: isDigit_def)
  have lits: "list_all (literal_ok (\<lambda>c. c \<noteq> 0x2D)) mask_cep"
    by (simp add: mask_cep_def)
  have "length (replace_underscores s) =
          length (filter (\<lambda>c. c \<noteq> 0x2D) (replace_underscores s)) + 1
        \<and> list_all isDigit (filter (\<lambda>c. c \<noteq> 0x2D) (replace_underscores s))"
    using mask_count [of mask_cep s "\<lambda>c. c \<noteq> 0x2D", OF _ lits keep] assms
    by (simp add: masked_def mask_cep_def)
  then show ?thesis
    using cep_masked_trim [OF assms]
    by (auto simp: field_defs spec_postalCode_ok_def Let_def)
qed

lemma telefone_masked:
  assumes "masked mask_telefone s"
  shows "schema_telefone (JString s) = [] \<longleftrightarrow> spec_phone_ok s"
proof -
  have keep: "\<And>c. isDigit c \<Longrightarrow> c \<noteq> 0x2B \<and> c \<noteq> 0x20 \<and> c \<noteq> 0x2D"
    by (auto simp: isDigit_def)
  have lits: "list_all (literal_ok (\<lambda>c. c \<noteq> 0x2B \<and> c \<noteq> 0x20 \<and> c \<noteq> 0x2D)) mask_telefone"
    by (simp add: mask_telefone_def isDigit_def)
  have "length (replace_underscores s) =
          length (filter (\<lambda>c. c \<noteq> 0x2B \<and> c \<noteq> 0x20 \<and> c \<noteq> 0x2D) (replace_underscores s)) + 4
        \<and> list_all isDigit
            (filter (\<lambda>c. c \<noteq> 0x2B \<and> c \<noteq> 0x20 \<and> c \<noteq> 0x2D) (replace_underscores s))"
    using mask_count [of mask_telefone s "\<lambda>c. c \<noteq> 0x2B \<and> c \<noteq> 0x20 \<and> c \<noteq> 0x2D", OF _ lits keep]
      assms
    by (simp add: masked_def mask_telefone_def)
  then show ?thesis
    using telefone_masked_trim [OF assms]
    by (auto simp: field_defs spec_phone_ok_def Let_def)
qed

text \<open>
  C1, as amended: for a string input the postal-code field passes exactly when
  the input, trimmed and with every underscore placeholder removed, has 9
  characters, and the phone field exactly when it has 17; the literal mask
  characters are counted, not removed. Otherwise the field fails with its own
  message. For an input of the shape of the field's mask this is the same as 8
  digits (postal code) or 13 digits (phone) being left once the placeholders and
  the literal non-digit mask characters are removed.
\<close>

theorem schema_length_checks:
  "schema_cep (JString s) =
     (if length (replace_underscores (trim s)) = 9 then [] else [custom msg_cep])
   \<and> schema_telefone (JString t) =
     (if length (replace_underscores (trim t)) = 17 then [] else [custom msg_telefone])
   \<and> (masked mask_cep s \<longrightarrow> (schema_cep (JString s) = [] \<longleftrightarrow> spec_postalCode_ok s))
   \<and> (masked mask_telefone t \<longrightarrow> (schema_telefone (JString t) = [] \<longleftrightarrow> spec_phone_ok t))"
  using cep_masked [of s] telefone_masked [of t] by (simp add: field_defs)

theorem schema_length_checks_witness:
  "masked mask_cep (js ''0123_-___'')
   \<and> schema_cep (JString (js ''0123_-___'')) = [custom msg_cep]
   \<and> \<not> spec_postalCode_ok (js ''0123_-___'')
   \<and> masked mask_telefone (js ''+55 11 99999-9999'')
   \<and> schema_telefone (JString (js ''+55 11 99999-9999'')) = []
   \<and> spec_phone_ok (js ''+55 11 99999-9999'')"
  using schema_length_checks [of "js ''0123_-___''" "js ''+55 11 99999-9999''"]
  by (simp add: field_defs string_defs masked_def mask_cep_def mask_telefone_def
      spec_postalCode_ok_def spec_phone_ok_def)

text \<open>
  Against C1 as stated: \<open>12345678\<close> is 8 digits once placeholders and the literal
  \<open>-\<close> are removed, and fails; \<open>abcdefghi\<close> holds no digit, and passes.
\<close>

theorem schema_length_checks_counterexample:
  "spec_postalCode_ok (js ''12345678'')
   \<and> schema_cep (JString (js ''12345678'')) = [custom msg_cep]
   \<and> \<not> spec_postalCode_ok (js ''abcdefghi'')
   \<and> schema_cep (JString (js ''abcdefghi'')) = []"
  by (simp add: field_defs string_defs spec_postalCode_ok_def)

text \<open>
  C10, as amended: the two fields check only the number of characters left after
  trimming and removing underscores, so two inputs with the same number get the
  same verdict; any 9-character string without underscores that neither starts
  nor ends with white space passes the postal-code check, and any such
  17-character string passes the phone check.
\<close>

theorem schema_counts_only:
  "(schema_cep (JString s) = [] \<longleftrightarrow> length (replace_underscores (trim s)) = 9)
   \<and> (schema_telefone (JString t) = [] \<longleftrightarrow> length (replace_underscores (trim t)) = 17)
   \<and> (length (replace_underscores (trim s)) = length (replace_underscores (trim s')) \<longrightarrow>
        schema_cep (JString s) = schema_cep (JString s')
        \<and> schema_telefone (JString s) = schema_telefone (JString s'))
   \<and> (length s = 9 \<and> 0x5F \<notin> set s \<and> \<not> isWhiteSpace (hd s) \<and> \<not> isWhiteSpace (last s) \<longrightarrow>
        schema_cep (JString s) = [])
   \<and> (length t = 17 \<and> 0x5F \<notin> set t \<and> \<not> isWhiteSpace (hd t) \<and> \<not> isWhiteSpace (last t) \<longrightarrow>
        schema_telefone (JString t) = [])"
proof -
  have nine: "schema_cep (JString s) = []"
    if "length s = 9" "0x5F \<notin> set s" "\<not> isWhiteSpace (hd s)" "\<not> isWhiteSpace (last s)"
  proof -
    have "s \<noteq> []" using that(1) by auto
    then have "replace_underscores (trim s) = s"
      using that by (simp add: trim_id replace_underscores_id)
    then show ?thesis using that(1) by (simp add: field_defs)
  qed
  have seventeen: "schema_telefone (JString t) = []"
    if "length t = 17" "0x5F \<notin> set t" "\<not> isWhiteSpace (hd t)" "\<not> isWhiteSpace (last t)"
  proof -
    have "t \<noteq> []" using that(1) by auto
    then have "replace_underscores (trim t) = t"
      using that by (simp add: trim_id replace_underscores_id)
    then show ?thesis using that(1) by (simp add: field_defs)
  qed
  show ?thesis using nine seventeen by (simp add: field_defs)
qed

theorem schema_counts_only_witness:
  "length (js ''abcdefghi'') = 9 \<and> 0x5F \<notin> set (js ''abcdefghi'')
   \<and> \<not> isWhiteSpace (hd (js ''abcdefghi'')) \<and> \<not> isWhiteSpace (last (js ''abcdefghi''))
   \<and> schema_cep (JString (js ''abcdefghi'')) = []
   \<and> length (js ''abcdefghijklmnopq'') = 17 \<and> 0x5F \<notin> set (js ''abcdefghijklmnopq'')
   \<and> \<not> isWhiteSpace (hd (js ''abcdefghijklmnopq''))
   \<and> \<not> isWhiteSpace (last (js ''abcdefghijklmnopq''))
   \<and> schema_telefone (JString (js ''abcdefghijklmnopq'')) = []
   \<and> length (replace_underscores (trim (js ''abcdefghi'')))
       = length (replace_underscores (trim (js ''01234-567'')))
   \<and> schema_cep (JString (js ''abcdefghi'')) = schema_cep (JString (js ''01234-567''))"
  using schema_counts_only [of "js ''abcdefghi''" "js ''abcdefghijklmnopq''" "js ''01234-567''"]
  by (simp add: field_defs string_defs)

text \<open>
  Against C10 as stated: a 9-character string without underscores that starts
  with a space fails the postal-code check, and a 17-character one that ends
  with a space fails the phone check.
\<close>

theorem schema_counts_only_counterexample:
  "length (js '' 1234-567'') = 9 \<and> 0x5F \<notin> set (js '' 1234-567'')
   \<and> schema_cep (JString (js '' 1234-567'')) = [custom msg_cep]
   \<and> length (js ''+55 11 99999-999 '') = 17 \<and> 0x5F \<notin> set (js ''+55 11 99999-999 '')
   \<and> schema_telefone (JString (js ''+55 11 99999-999 '')) = [custom msg_telefone]"
  by (simp add: field_defs string_defs)

subsection \<open>Loading the account\<close>

text \<open>
  C3, as amended: on a successful response that carries a \<open>cliente\<close> object, five
  form fields are set from it, \<open>nome\<close>, \<open>endereco\<close>, \<open>cep\<close>, \<open>numero\<close> and \<open>telefone\<close>,
  the house number as the text \<open>String\<close> makes of it; every other field, the
  password among them, keeps what it had, and the form stops loading.
\<close>

theorem load_populates_five:
  assumes "cliente d = Some c"
  shows "map_of (formValues (loadAccountData (Inr d) s)) =
           (map_of (formValues s))
             (''nome'' \<mapsto> nome c, ''endereco'' \<mapsto> endereco c, ''cep'' \<mapsto> cep c,
              ''numero'' \<mapsto> JString (String (numero c)), ''telefone'' \<mapsto> telefone c)
         \<and> map_of (formValues (loadAccountData (Inr d) s)) ''senha'' = map_of (formValues s) ''senha''
         \<and> isLoading (loadAccountData (Inr d) s) = False"
  using assms by (simp add: handler_defs effect_defs update_conv')

theorem load_populates_five_witness:
  "cliente example_data = Some example_cliente
   \<and> map_of (formValues (loadAccountData (Inr example_data) initial)) ''numero''
       = Some (JString (js ''42''))
   \<and> map_of (formValues (loadAccountData (Inr example_data) initial)) ''cep''
       = Some (JString (js ''01234-567''))
   \<and> map_of (formValues (loadAccountData (Inr example_data) initial)) ''senha'' = None
   \<and> isLoading (loadAccountData (Inr example_data) initial) = False"
  using load_populates_five [of example_data example_cliente initial]
  by (simp add: example_data_def example_cliente_def initial_def String_def js_def)

text \<open>
  Against C3 as stated: after loading the example account into an empty form,
  five fields of the schema hold a value, not six; the password has none.
\<close>

theorem load_populates_five_counterexample:
  "populated_fields (loadAccountData (Inr example_data) initial)
     = [''nome'', ''endereco'', ''cep'', ''numero'', ''telefone'']
   \<and> length (populated_fields (loadAccountData (Inr example_data) initial)) \<noteq> 6"
  by (simp add: populated_fields_def shape_def handler_defs effect_defs example_data_def
      example_cliente_def initial_def)

subsection \<open>The example states\<close>

lemmas example_defs = example_ready_def example_data_def example_cliente_def initial_def

lemmas schema_defs = schema_def shape_def getField_def schema_nome_def schema_endereco_def
  schema_numero_def schema_senha_def z_min_def field_defs

lemma example_ready_flags:
  "isLoading example_ready = False \<and> isSubmitting example_ready = False
   \<and> session example_ready = True \<and> pendingPut example_ready = 0
   \<and> pendingGet example_ready = 0 \<and> pendingDelete example_ready = 0"
  by (simp add: example_defs handler_defs effect_defs)

lemma example_ready_valid: "schema (formValues example_ready) = []"
  by (simp add: example_defs handler_defs effect_defs schema_defs string_defs String_def)

lemma example_submitting_flags:
  "isLoading example_submitting = False \<and> isSubmitting example_submitting = True
   \<and> session example_submitting = True \<and> pendingPut example_submitting = 1
   \<and> pendingGet example_submitting = 0 \<and> pendingDelete example_submitting = 0"
  using example_ready_flags example_ready_valid
  by (simp add: example_submitting_def handleSubmit_call_def handleAtualizarUsuario_call_def
      effect_defs)

lemma example_submitting_trace:
  "count_effect Logout (trace example_submitting) = 0"
  using example_ready_valid
  by (simp add: example_submitting_def handleSubmit_call_def handleAtualizarUsuario_call_def
      effect_defs count_effect_def example_defs handler_defs)

lemma example_ready_trace: "trace example_ready = [Request GET ''/conta'' None]"
  by (simp add: example_defs handler_defs effect_defs)

subsection \<open>Failures of update and delete\<close>

text \<open>
  C2: when the update or the delete request fails, the handler shows one toast:
  for an application-level error its title is the error's own message and its
  description the remediation hint, for any other error the fallback title and
  the try-again-later text. Both handlers do the same.
\<close>

theorem error_toast_classification:
  "trace (handleAtualizarUsuario formData (Inl e) s) =
     trace s @ [Request PUT ''/clientes'' (Some formData), spec_toast e]
   \<and> trace (handleDeletarConta True (Inl e) s) =
     trace s @ [Confirm msg_confirm, Request DELETE ''/clientes'' None, spec_toast e]"
  by (cases e) (simp_all add: handler_defs effect_defs spec_toast_def)

theorem error_toast_classification_witness:
  "trace (handleAtualizarUsuario [] (Inl (AppError (JString (js ''CEP inexistente'')))) initial) =
     [Request PUT ''/clientes'' (Some []),
      ShowToast (JString (js ''CEP inexistente'')) (js ''Verifique os dados e tente novamente.'') True]
   \<and> trace (handleDeletarConta True (Inl (NotAppError (JString (js ''Network Error'')))) initial) =
     [Confirm msg_confirm, Request DELETE ''/clientes'' None,
      ShowToast (JString (js ''Erro no servidor.'')) (js ''Tente novamente mais tarde.'') True]"
  using error_toast_classification [of "[]" "AppError (JString (js ''CEP inexistente''))" initial]
    error_toast_classification [of "[]" "NotAppError (JString (js ''Network Error''))" initial]
  by (simp add: spec_toast_def initial_def)

lemma load_resume_requests:
  "count_effect (Request m url b) (trace (loadAccountData_resume r s)) =
     count_effect (Request m url b) (trace s)"
  by (cases r)
    (auto simp: loadAccountData_resume_def loadAccountData_catch_def effect_defs count_effect_def
      Let_def split: option.split)

lemma put_success_trace:
  "trace (handleAtualizarUsuario formData (Inr u) s) =
     trace s @ [Request PUT ''/clientes'' (Some formData), Request GET ''/conta'' None]
   \<and> pendingGet (handleAtualizarUsuario formData (Inr u) s) = Suc (pendingGet s)"
  by (simp add: handleAtualizarUsuario_def handleAtualizarUsuario_call_def
      handleAtualizarUsuario_resume_def loadAccountData_call_def effect_defs)

lemma put_failure_state:
  "handleAtualizarUsuario formData (Inl e) s =
     s\<lparr>trace := trace s @ [Request PUT ''/clientes'' (Some formData), spec_toast e]\<rparr>"
  by (cases e)
    (simp_all add: handleAtualizarUsuario_def handleAtualizarUsuario_call_def
      handleAtualizarUsuario_resume_def effect_defs spec_toast_def)

lemma submit_resume_failure:
  "handleSubmit_resume (Inl e) s =
     s\<lparr>trace := trace s @ [spec_toast e], pendingPut := pendingPut s - 1, isSubmitting := False\<rparr>"
  by (cases e)
    (simp_all add: handleSubmit_resume_def handleAtualizarUsuario_resume_def effect_defs
      spec_toast_def)

lemma submit_resume_success:
  "trace (handleSubmit_resume (Inr u) s) = trace s @ [Request GET ''/conta'' None]"
  by (simp add: handleSubmit_resume_def handleAtualizarUsuario_resume_def
      loadAccountData_call_def effect_defs)

lemma spec_toast_not_get: "spec_toast e \<noteq> Request m url b"
  by (cases e) (simp_all add: spec_toast_def)

text \<open>
  C5: when the update request succeeds the handler issues exactly one request
  after it, the read of \<open>/conta\<close>, and handling the response to that read issues
  none; when the update request fails no read is issued.
\<close>

theorem update_success_reloads_once:
  "trace (handleAtualizarUsuario formData (Inr u) s) =
     trace s @ [Request PUT ''/clientes'' (Some formData), Request GET ''/conta'' None]
   \<and> pendingGet (handleAtualizarUsuario formData (Inr u) s) = Suc (pendingGet s)
   \<and> count_effect (Request GET ''/conta'' None)
        (trace (loadAccountData_resume r (handleAtualizarUsuario formData (Inr u) s))) =
      Suc (count_effect (Request GET ''/conta'' None) (trace s))
   \<and> count_effect (Request GET ''/conta'' None) (trace (handleAtualizarUsuario formData (Inl e) s)) =
      count_effect (Request GET ''/conta'' None) (trace s)
   \<and> pendingGet (handleAtualizarUsuario formData (Inl e) s) = pendingGet s
   \<and> (step (PutResponse (Inr u)) s = Some sa \<longrightarrow>
        trace sa = trace s @ [Request GET ''/conta'' None])
   \<and> (step (PutResponse (Inl e)) s = Some sb \<longrightarrow> trace sb = trace s @ [spec_toast e])"
proof -
  have reload: "count_effect (Request GET ''/conta'' None)
        (trace (loadAccountData_resume r (handleAtualizarUsuario formData (Inr u) s))) =
      Suc (count_effect (Request GET ''/conta'' None) (trace s))"
    by (simp add: load_resume_requests) (simp add: put_success_trace count_effect_def)
  have none: "count_effect (Request GET ''/conta'' None)
        (trace (handleAtualizarUsuario formData (Inl e) s)) =
      count_effect (Request GET ''/conta'' None) (trace s)"
    by (simp add: put_failure_state count_effect_def spec_toast_not_get)
  have same: "pendingGet (handleAtualizarUsuario formData (Inl e) s) = pendingGet s"
    by (simp add: put_failure_state)
  have ok: "trace sa = trace s @ [Request GET ''/conta'' None]"
    if "step (PutResponse (Inr u)) s = Some sa"
    using that submit_resume_success [of u s] by (auto split: if_splits)
  have ko: "trace sb = trace s @ [spec_toast e]"
    if "step (PutResponse (Inl e)) s = Some sb"
    using that by (auto simp: submit_resume_failure split: if_splits)
  show ?thesis
    using put_success_trace [of formData u s] reload none same ok ko by blast
qed

theorem update_success_reloads_once_witness:
  "trace (handleAtualizarUsuario [] (Inr ()) example_ready) =
     [Request GET ''/conta'' None, Request PUT ''/clientes'' (Some []), Request GET ''/conta'' None]
   \<and> pendingGet (handleAtualizarUsuario [] (Inr ()) example_ready) = 1"
  using update_success_reloads_once [where formData = "[]" and u = "()" and s = example_ready
      and sa = example_ready and sb = example_ready]
    example_ready_trace example_ready_flags
  by simp

text \<open>
  C9: when the update request fails, the handler leaves the state as it was but
  for the trace, which gains the request and the error toast: no field value
  changes, the loading flag is untouched and no read is issued. Within the form
  library the pending count and the submitting flag go back as well.
\<close>

theorem update_failure_only_toasts:
  "handleAtualizarUsuario formData (Inl e) s =
     s\<lparr>trace := trace s @ [Request PUT ''/clientes'' (Some formData), spec_toast e]\<rparr>
   \<and> formValues (handleAtualizarUsuario formData (Inl e) s) = formValues s
   \<and> isLoading (handleAtualizarUsuario formData (Inl e) s) = isLoading s
   \<and> pendingGet (handleAtualizarUsuario formData (Inl e) s) = pendingGet s
   \<and> handleSubmit_resume (Inl e) s =
       s\<lparr>trace := trace s @ [spec_toast e], pendingPut := pendingPut s - 1, isSubmitting := False\<rparr>
   \<and> (step (PutResponse (Inl e)) s = Some sa \<longrightarrow>
        formValues sa = formValues s \<and> isLoading sa = isLoading s
        \<and> pendingGet sa = pendingGet s \<and> trace sa = trace s @ [spec_toast e])"
proof -
  have stepped: "formValues sa = formValues s \<and> isLoading sa = isLoading s
        \<and> pendingGet sa = pendingGet s \<and> trace sa = trace s @ [spec_toast e]"
    if "step (PutResponse (Inl e)) s = Some sa"
    using that by (auto simp: submit_resume_failure split: if_splits)
  show ?thesis
    using stepped by (simp add: put_failure_state submit_resume_failure)
qed

theorem update_failure_only_toasts_witness:
  "formValues (handleAtualizarUsuario [] (Inl (NotAppError JUndefined)) example_ready)
     = formValues example_ready
   \<and> trace (handleAtualizarUsuario [] (Inl (NotAppError JUndefined)) example_ready) =
       trace example_ready @ [Request PUT ''/clientes'' (Some []),
         ShowToast (JString (js ''Erro no servidor.'')) (js ''Tente novamente mais tarde.'') True]"
  using update_failure_only_toasts
    [where formData = "[]" and e = "NotAppError JUndefined" and s = example_ready
      and sa = example_ready]
  by (simp add: spec_toast_def)

subsection \<open>Deleting the account\<close>

lemma step_keeps_logged_out:
  assumes "step e s = Some s'" and "\<not> session s"
  shows "\<not> session s'"
  using assms
  by (cases e)
    (auto simp: handler_defs effect_defs on_screen_def can_submit_def Let_def
      split: if_splits sum.splits option.splits)

lemma run_keeps_logged_out:
  assumes "run es s = Some s'" and "\<not> session s"
  shows "\<not> session s'"
  using assms
proof (induction es arbitrary: s)
  case Nil
  then show ?case by simp
next
  case (Cons e es)
  then show ?case
    by (auto split: option.splits dest: step_keeps_logged_out)
qed

lemma step_logout_count:
  assumes "step ev s = Some s'"
  shows "count_effect Logout (trace s') =
           count_effect Logout (trace s) + (case ev of DeleteResponse (Inr x) \<Rightarrow> 1 | _ \<Rightarrow> 0)"
  using assms
  by (cases ev)
    (auto simp: handler_defs effect_defs on_screen_def can_submit_def Let_def count_effect_def
      split: if_splits sum.splits option.splits)

text \<open>
  C6: when the delete request succeeds \<open>logout\<close> is called exactly once, and in
  every state that follows, whatever happens and whatever else was in flight,
  the user can neither edit, submit nor delete; \<open>logout\<close> is not called when the delete request fails or when the
  dialog is declined, and no other event calls it.
\<close>

theorem delete_success_logs_out_once:
  "count_effect Logout (trace (handleDeletarConta True (Inr u) s)) =
     Suc (count_effect Logout (trace s))
   \<and> (run es (handleDeletarConta True (Inr u) s) = Some s' \<longrightarrow>
        step Submit s' = None \<and> step (DeleteClick p) s' = None \<and> step (Edit k v) s' = None)
   \<and> (step (DeleteResponse (Inr u)) s = Some sa \<and> run es sa = Some sb \<longrightarrow>
        step Submit sb = None \<and> step (DeleteClick p) sb = None \<and> step (Edit k v) sb = None)
   \<and> count_effect Logout (trace (handleDeletarConta True (Inl e) s)) =
       count_effect Logout (trace s)
   \<and> count_effect Logout (trace (handleDeletarConta False r s)) = count_effect Logout (trace s)
   \<and> (step ev s = Some s'' \<longrightarrow>
        count_effect Logout (trace s'') =
          count_effect Logout (trace s) + (case ev of DeleteResponse (Inr x) \<Rightarrow> 1 | _ \<Rightarrow> 0))"
proof -
  have off: "\<not> session (handleDeletarConta True (Inr u) s)"
    by (simp add: handler_defs effect_defs)
  have after_logout: "step Submit s' = None \<and> step (DeleteClick p) s' = None \<and> step (Edit k v) s' = None"
    if "run es (handleDeletarConta True (Inr u) s) = Some s'"
    using run_keeps_logged_out [OF that off] by (simp add: on_screen_def can_submit_def)
  have after_response:
    "step Submit sb = None \<and> step (DeleteClick p) sb = None \<and> step (Edit k v) sb = None"
    if "step (DeleteResponse (Inr u)) s = Some sa" and "run es sa = Some sb"
  proof -
    have "\<not> session sa"
      using that(1) by (auto simp: handleDeletarConta_resume_def effect_defs split: if_splits)
    then show ?thesis
      using run_keeps_logged_out [OF that(2)] by (simp add: on_screen_def can_submit_def)
  qed
  have once: "count_effect Logout (trace (handleDeletarConta True (Inr u) s)) =
      Suc (count_effect Logout (trace s))"
    by (simp add: handler_defs effect_defs count_effect_def)
  have failed: "count_effect Logout (trace (handleDeletarConta True (Inl e) s)) =
      count_effect Logout (trace s)"
    by (simp add: handler_defs effect_defs count_effect_def Let_def)
  have declined: "count_effect Logout (trace (handleDeletarConta False r s)) =
      count_effect Logout (trace s)"
    by (simp add: handler_defs effect_defs count_effect_def)
  show ?thesis
    using after_logout after_response once failed declined step_logout_count [of ev s s'']
    by blast
qed

theorem delete_success_logs_out_once_witness:
  "run [PutResponse (Inr ()), GetResponse (Inr example_data)]
     (handleDeletarConta True (Inr ()) example_submitting) = Some example_logged_out
   \<and> count_effect Logout (trace (handleDeletarConta True (Inr ()) example_submitting)) = 1
   \<and> isLoading example_logged_out = False \<and> isSubmitting example_logged_out = False
   \<and> step Submit example_logged_out = None
   \<and> step (DeleteClick True) example_logged_out = None
   \<and> step (Edit ''nome'' (js ''Bia'')) example_logged_out = None"
proof -
  have pending: "0 < pendingPut (handleDeletarConta True (Inr ()) example_submitting)"
    using example_submitting_flags by (simp add: handler_defs effect_defs)
  have "0 < pendingGet (handleSubmit_resume (Inr ())
      (handleDeletarConta True (Inr ()) example_submitting))"
    by (simp add: handler_defs effect_defs)
  then have ran: "run [PutResponse (Inr ()), GetResponse (Inr example_data)]
      (handleDeletarConta True (Inr ()) example_submitting) = Some example_logged_out"
    using pending by (simp add: example_logged_out_def)
  have none_before: "count_effect Logout (trace example_submitting) = 0"
    by (rule example_submitting_trace)
  have flags: "isLoading example_logged_out = False \<and> isSubmitting example_logged_out = False"
    by (simp add: example_logged_out_def handler_defs effect_defs example_data_def)
  show ?thesis
    using delete_success_logs_out_once [where u = "()" and s = example_submitting
        and es = "[PutResponse (Inr ()), GetResponse (Inr example_data)]"
        and s' = example_logged_out and p = True and k = "''nome''" and v = "js ''Bia''"]
      ran none_before flags
    by simp
qed

subsection \<open>The submit button\<close>

lemma submit_inv_step:
  assumes "step e s = Some s'" and "submit_inv s"
  shows "submit_inv s'"
  using assms
  by (cases e)
    (auto simp: submit_inv_def handler_defs effect_defs on_screen_def can_submit_def
      UpdateForm_def Let_def split: if_splits sum.splits option.splits)

lemma submit_inv_reachable: "reachable s \<Longrightarrow> submit_inv s"
proof (induction rule: reachable.induct)
  case mounted
  show ?case
    by (simp add: submit_inv_def loadAccountData_call_def effect_defs initial_def)
next
  case (after s e s')
  then show ?case by (simp add: submit_inv_step)
qed

lemma example_submitting_reachable: "reachable example_submitting"
proof -
  have "step (GetResponse (Inr example_data)) (loadAccountData_call initial) = Some example_ready"
    by (simp add: example_ready_def loadAccountData_def loadAccountData_call_def effect_defs)
  then have ready: "reachable example_ready"
    using reachable.mounted reachable.after by blast
  have "step Submit example_ready = Some example_submitting"
    using example_ready_flags
    by (simp add: example_submitting_def can_submit_def UpdateForm_def)
  then show ?thesis
    using ready reachable.after by blast
qed

text \<open>
  C8: in every state the mounted form can reach in which a submit is in flight,
  that is, the submitting flag is up or an update request is pending, the section
  is rendered with the submit button disabled and a submit cannot happen; there
  is exactly one update request pending. In any state at all, a raised
  submitting flag rules out an enabled submit button.
\<close>

theorem submit_disabled_in_flight:
  assumes "reachable s" and "isSubmitting s \<or> 0 < pendingPut s"
  shows "UpdateForm s = Section True \<and> \<not> can_submit s \<and> step Submit s = None
         \<and> isSubmitting s \<and> pendingPut s = 1
         \<and> (isSubmitting t \<longrightarrow> UpdateForm t \<noteq> Section False \<and> step Submit t = None)"
  using submit_inv_reachable [OF assms(1)] assms(2)
  by (auto simp: submit_inv_def UpdateForm_def can_submit_def)

theorem submit_disabled_in_flight_witness:
  "reachable example_submitting \<and> isSubmitting example_submitting
   \<and> UpdateForm example_submitting = Section True
   \<and> step Submit example_submitting = None
   \<and> pendingPut example_submitting = 1"
  using submit_disabled_in_flight [of example_submitting example_submitting]
    example_submitting_reachable example_submitting_flags
  by simp

end
